theory Spec2Isabelle
  imports Main "HOL-Library.Char_ord"
begin

section \<open>cqlstore: a Cassandra session store for gorilla/sessions\<close>

text \<open>
  The development embeds \<^verbatim>\<open>cqlstore.go\<close>: the constructor \<^verbatim>\<open>New\<close>, and the
  methods \<^verbatim>\<open>Get\<close>, \<^verbatim>\<open>New\<close> and \<^verbatim>\<open>Save\<close> of \<^verbatim>\<open>*CQLStore\<close>.
  The packages the file calls (gocql, securecookie, gorilla/sessions, net/http) are
  outside the repository. They appear as explicit state (the cluster, the response,
  the registry), or as parameters (the codec functions, the generated UUID).
\<close>

subsection \<open>Errors\<close>

text \<open>
  Go's \<^verbatim>\<open>error\<close> values. \<open>errorString\<close> is what \<^verbatim>\<open>errors.New\<close> builds,
  \<open>foreignError\<close> an error value handed back by gocql or securecookie (known by its
  message only); the other three are the wrapper structs of the source.
\<close>

datatype error =
    errorString string
  | foreignError string
  | createError error
  | saveError error
  | loadError error

fun Error :: "error \<Rightarrow> string" where
  "Error (errorString m) = m"
| "Error (foreignError m) = m"
| "Error (createError e) = ''Could not create sessions table. Error: '' @ Error e"
| "Error (saveError e) = ''Could not save session data. Error: '' @ Error e"
| "Error (loadError e) = ''Could not load session data. Error: '' @ Error e"

text \<open>Whether an error value is of the type \<^verbatim>\<open>createError\<close>.\<close>

fun is_createError :: "error \<Rightarrow> bool" where
  "is_createError (createError e) = True"
| "is_createError e = False"

subsection \<open>Options, pointers to them, and the heap\<close>

text \<open>
  \<^verbatim>\<open>sessions.Options\<close>. Both the store and every session hold a
  \<^verbatim>\<open>*sessions.Options\<close>, so the structs live in a heap and the fields hold
  addresses: \<open>None\<close> is \<^verbatim>\<open>nil\<close>, \<open>Some a\<close> points at cell \<open>a\<close>. Reading through
  \<^verbatim>\<open>nil\<close> panics; \<open>deref\<close> answers \<open>None\<close> there.
\<close>

record Options =
  Path :: string
  Domain :: string
  MaxAge :: int
  Secure :: bool
  HttpOnly :: bool

type_synonym heap = "Options list"

type_synonym ptr = "nat option"

definition deref :: "heap \<Rightarrow> ptr \<Rightarrow> Options option" where
  "deref h p = (case p of None \<Rightarrow> None
                | Some a \<Rightarrow> if a < length h then Some (h ! a) else None)"

text \<open>\<^verbatim>\<open>&sessions.Options{...}\<close>: a new cell, and its address.\<close>

definition alloc :: "heap \<Rightarrow> Options \<Rightarrow> ptr \<times> heap" where
  "alloc h v = (Some (length h), h @ [v])"

text \<open>The assignment \<^verbatim>\<open>p.MaxAge = n\<close> of a caller; \<open>None\<close> is the panic on \<^verbatim>\<open>nil\<close>.\<close>

definition set_MaxAge :: "heap \<Rightarrow> ptr \<Rightarrow> int \<Rightarrow> heap option" where
  "set_MaxAge h p n = (case p of None \<Rightarrow> None
                       | Some a \<Rightarrow> if a < length h then Some (h[a := (h ! a)\<lparr>MaxAge := n\<rparr>])
                                   else None)"

subsection \<open>Requests, cookies and the response\<close>

text \<open>
  \<^verbatim>\<open>http.Cookie\<close> with the fields \<^verbatim>\<open>sessions.NewCookie\<close> fills: the name, the
  value, and the five attributes it copies out of the options (the \<^verbatim>\<open>Expires\<close>
  stamp, which depends on the clock, is left out). A request is the list of its
  cookies, name and value; a response is the list of cookies handed to
  \<^verbatim>\<open>http.SetCookie\<close>, oldest first.
\<close>

record Cookie = Options +
  Name :: string
  Value :: string

type_synonym Request = "(string \<times> string) list"

type_synonym ResponseWriter = "Cookie list"

definition Cookie :: "Request \<Rightarrow> string \<Rightarrow> string option" where
  "Cookie r nm = map_of r nm"

definition NewCookie :: "string \<Rightarrow> string \<Rightarrow> Options \<Rightarrow> Cookie" where
  "NewCookie nm v opts =
     \<lparr>Path = Path opts, Domain = Domain opts, MaxAge = MaxAge opts,
      Secure = Secure opts, HttpOnly = HttpOnly opts, Name = nm, Value = v\<rparr>"

definition SetCookie :: "ResponseWriter \<Rightarrow> Cookie \<Rightarrow> ResponseWriter" where
  "SetCookie w c = w @ [c]"

subsection \<open>The cluster behind \<^verbatim>\<open>*gocql.Session\<close>\<close>

text \<open>
  The four CQL statements of the source, by table and bound values. The cluster
  keeps the tables created, the rows of each table (identifier to payload and TTL),
  and the statements sent to it. Whether a statement fails is the cluster's
  affair: \<open>fault\<close> gives the message of the error it answers with, if any.
\<close>

datatype stmt =
    CreateTable string
  | Insert string string string int
  | Delete string string
  | Select string string

record Cluster =
  tables :: "string set"
  rows :: "string \<Rightarrow> string \<rightharpoonup> (string \<times> int)"
  issued :: "stmt list"
  fault :: "stmt \<Rightarrow> string option"

fun effect :: "stmt \<Rightarrow> Cluster \<Rightarrow> Cluster" where
  "effect (CreateTable t) cs = cs\<lparr>tables := insert t (tables cs)\<rparr>"
| "effect (Insert t i d ttl) cs = cs\<lparr>rows := (rows cs)(t := (rows cs t)(i \<mapsto> (d, ttl)))\<rparr>"
| "effect (Delete t i) cs = cs\<lparr>rows := (rows cs)(t := (rows cs t)(i := None))\<rparr>"
| "effect (Select t i) cs = cs"

definition Exec :: "Cluster \<Rightarrow> stmt \<Rightarrow> error option \<times> Cluster" where
  "Exec cs q =
     (let cs' = cs\<lparr>issued := issued cs @ [q]\<rparr>
      in case fault cs q of
           Some m \<Rightarrow> (Some (foreignError m), cs')
         | None \<Rightarrow> (None, effect q cs'))"

definition Scan :: "Cluster \<Rightarrow> string \<Rightarrow> string \<Rightarrow> (error + string) \<times> Cluster" where
  "Scan cs t i =
     (let cs' = cs\<lparr>issued := issued cs @ [Select t i]\<rparr>
      in case fault cs (Select t i) of
           Some m \<Rightarrow> (Inl (foreignError m), cs')
         | None \<Rightarrow> (case rows cs t i of
                      None \<Rightarrow> (Inl (foreignError ''not found''), cs')
                    | Some (d, ttl) \<Rightarrow> (Inr d, cs')))"

subsection \<open>securecookie\<close>

text \<open>
  The functions of securecookie the source calls, as parameters. \<^verbatim>\<open>EncodeMulti\<close>
  and \<^verbatim>\<open>DecodeMulti\<close> take an \<^verbatim>\<open>interface{}\<close>; the source uses each at two
  types, the identifier (a string) and the value mapping, hence two instances of
  each. The identifier is decoded into a string, which is assigned in one step
  after the last check that can fail: that decode answers the error or the string.
  The value mapping is decoded into the session's own map, through the pointer
  \<^verbatim>\<open>&s.Values\<close>: that decode is given the map as it stands and answers the map
  as it leaves it, together with the error, if any. What a failing decode leaves
  in the map is the codec's affair.
\<close>

type_synonym valmap = "string \<rightharpoonup> string"

record 'c securecookie =
  CodecsFromPairs :: "string list \<Rightarrow> 'c list"
  EncodeMulti_ID :: "string \<Rightarrow> string \<Rightarrow> 'c list \<Rightarrow> error + string"
  EncodeMulti_Values :: "string \<Rightarrow> valmap \<Rightarrow> 'c list \<Rightarrow> error + string"
  DecodeMulti_ID :: "string \<Rightarrow> string \<Rightarrow> 'c list \<Rightarrow> error + string"
  DecodeMulti_Values ::
    "string \<Rightarrow> string \<Rightarrow> valmap \<Rightarrow> 'c list \<Rightarrow> valmap \<times> error option"

subsection \<open>Sessions and the store\<close>

record Session =
  ID :: string
  Values :: valmap
  Options :: ptr
  IsNew :: bool
  name :: string

definition NewSession :: "string \<Rightarrow> Session" where
  "NewSession nm = \<lparr>ID = '''', Values = Map.empty, Options = None, IsNew = False, name = nm\<rparr>"

text \<open>
  \<^verbatim>\<open>CQLStore\<close>. A prepared query is known by the table it addresses; \<open>None\<close> is
  the \<^verbatim>\<open>nil\<close> query of the zero store \<^verbatim>\<open>&CQLStore{}\<close>.
\<close>

record 'c CQLStore =
  Options :: ptr
  Codecs :: "'c list"
  saveQ :: "string option"
  deleteQ :: "string option"
  loadQ :: "string option"

definition zero_CQLStore :: "'c CQLStore" where
  "zero_CQLStore = \<lparr>Options = None, Codecs = [], saveQ = None, deleteQ = None, loadQ = None\<rparr>"

subsection \<open>The constructor\<close>

text \<open>
  \<^verbatim>\<open>regexp.MustCompile("^[a-zA-Z0-9_]+$").MatchString(table)\<close>. Without the
  multi-line flag Go's \<^verbatim>\<open>$\<close> matches at the end of the text only, so the
  pattern accepts exactly the non-empty strings of letters, digits and underscores.
\<close>

definition word_char :: "char \<Rightarrow> bool" where
  "word_char c \<longleftrightarrow>
     (CHR ''a'' \<le> c \<and> c \<le> CHR ''z'') \<or> (CHR ''A'' \<le> c \<and> c \<le> CHR ''Z'') \<or>
     (CHR ''0'' \<le> c \<and> c \<le> CHR ''9'') \<or> c = CHR ''_''"

definition MatchString :: "string \<Rightarrow> bool" where
  "MatchString table \<longleftrightarrow> table \<noteq> [] \<and> list_all word_char table"

text \<open>
  \<^verbatim>\<open>New(cs, table, keypairs...)\<close>. It answers the store and the error, and leaves
  the heap (the default options are allocated on success) and the cluster behind.
  The three \<^verbatim>\<open>cs.Query(...)\<close> that fill the store only build query values;
  nothing is sent.
\<close>

definition New ::
  "'c securecookie \<Rightarrow> heap \<Rightarrow> Cluster \<Rightarrow> string \<Rightarrow> string list
     \<Rightarrow> ('c CQLStore \<times> error option) \<times> heap \<times> Cluster" where
  "New sc h cs table keypairs =
     (if \<not> MatchString table
      then ((zero_CQLStore, Some (errorString (''Invalid table name '' @ table))), h, cs)
      else case Exec cs (CreateTable table) of
             (Some err, cs') \<Rightarrow> ((zero_CQLStore, Some (createError err)), h, cs')
           | (None, cs') \<Rightarrow>
               (let (p, h') = alloc h \<lparr>Path = ''/'', Domain = '''', MaxAge = 86400 * 30,
                                       Secure = False, HttpOnly = False\<rparr>
                in ((\<lparr>Options = p, Codecs = CodecsFromPairs sc keypairs,
                       saveQ = Some table, deleteQ = Some table, loadQ = Some table\<rparr>,
                     None), h', cs')))"

subsection \<open>Loading a session\<close>

text \<open>
  \<^verbatim>\<open>(st *CQLStore) New(r, name)\<close>. The outer \<open>option\<close> is the panic of a
  \<^verbatim>\<open>nil\<close> dereference (\<^verbatim>\<open>*st.Options\<close>, or a method of the \<^verbatim>\<open>nil\<close> query).
  In Go \<^verbatim>\<open>&(*st.Options)\<close> is the pointer \<^verbatim>\<open>st.Options\<close> itself: taking the
  address of a dereference allocates nothing, and the heap stays as it is.
\<close>

definition CQLStore_New ::
  "'c securecookie \<Rightarrow> heap \<Rightarrow> Cluster \<Rightarrow> 'c CQLStore \<Rightarrow> Request \<Rightarrow> string
     \<Rightarrow> ((Session \<times> error option) \<times> Cluster) option" where
  "CQLStore_New sc h cs st r nm =
     (case deref h (CQLStore.Options st) of
        None \<Rightarrow> None
      | Some _ \<Rightarrow>
          (let s = (NewSession nm)\<lparr>Session.Options := CQLStore.Options st, IsNew := True\<rparr>
           in case Cookie r nm of
                None \<Rightarrow> Some ((s, None), cs)
              | Some v \<Rightarrow>
                  (case DecodeMulti_ID sc nm v (Codecs st) of
                     Inl err \<Rightarrow> Some ((s, Some (loadError err)), cs)
                   | Inr i \<Rightarrow>
                       (let s = s\<lparr>ID := i\<rparr>
                        in case loadQ st of
                             None \<Rightarrow> None
                           | Some t \<Rightarrow>
                               (case Scan cs t (ID s) of
                                  (Inl err, cs') \<Rightarrow> Some ((s, Some (loadError err)), cs')
                                | (Inr encData, cs') \<Rightarrow>
                                    (case DecodeMulti_Values sc (name s) encData (Values s)
                                            (Codecs st) of
                                       (vs, Some err) \<Rightarrow>
                                         Some ((s\<lparr>Values := vs\<rparr>, Some (loadError err)),
                                               cs')
                                     | (vs, None) \<Rightarrow>
                                         Some ((s\<lparr>Values := vs, IsNew := False\<rparr>, None),
                                               cs')))))))"

text \<open>
  \<^verbatim>\<open>(st *CQLStore) Get(r, name)\<close> is \<^verbatim>\<open>sessions.GetRegistry(r).Get(st, name)\<close>.
  The registry of gorilla/sessions keeps, for one request, the session and the error
  first returned under each name: it answers a registered pair as it is, and on a
  name it has not seen it calls the store's \<^verbatim>\<open>New\<close>, sets the session's name
  and registers the pair.
\<close>

type_synonym Registry = "string \<rightharpoonup> (Session \<times> error option)"

definition Get ::
  "'c securecookie \<Rightarrow> heap \<Rightarrow> Cluster \<Rightarrow> 'c CQLStore \<Rightarrow> Registry \<Rightarrow> Request \<Rightarrow> string
     \<Rightarrow> ((Session \<times> error option) \<times> Cluster \<times> Registry) option" where
  "Get sc h cs st reg r nm =
     (case reg nm of
        Some info \<Rightarrow> Some (info, cs, reg)
      | None \<Rightarrow>
          (case CQLStore_New sc h cs st r nm of
             None \<Rightarrow> None
           | Some ((s, err), cs') \<Rightarrow>
               (let s = s\<lparr>name := nm\<rparr>
                in Some ((s, err), cs', reg(nm \<mapsto> (s, err))))))"

subsection \<open>Saving a session\<close>

text \<open>
  \<^verbatim>\<open>(st *CQLStore) Save(r, w, s)\<close>. \<open>uuid\<close> is the string that
  \<^verbatim>\<open>gocql.UUIDFromTime(time.Now()).String()\<close> gives at this call. The result is
  the error, the session (its identifier may have been assigned), the cluster and
  the response; \<open>None\<close> is the panic of a \<^verbatim>\<open>nil\<close> dereference.
\<close>

definition Save ::
  "'c securecookie \<Rightarrow> string \<Rightarrow> heap \<Rightarrow> Cluster \<Rightarrow> 'c CQLStore \<Rightarrow> Request
     \<Rightarrow> ResponseWriter \<Rightarrow> Session
     \<Rightarrow> (error option \<times> Session \<times> Cluster \<times> ResponseWriter) option" where
  "Save sc uuid h cs st r w s =
     (case deref h (Session.Options s) of
        None \<Rightarrow> None
      | Some so \<Rightarrow>
          if MaxAge so < 0 then
            (case deleteQ st of
               None \<Rightarrow> None
             | Some t \<Rightarrow>
                 (case Exec cs (Delete t (ID s)) of
                    (Some err, cs') \<Rightarrow> Some (Some (saveError err), s, cs', w)
                  | (None, cs') \<Rightarrow>
                      Some (None, s, cs', SetCookie w (NewCookie (name s) '''' so))))
          else
            (let s = (if ID s = '''' then s\<lparr>ID := uuid\<rparr> else s)
             in case EncodeMulti_Values sc (name s) (Values s) (Codecs st) of
                  Inl err \<Rightarrow> Some (Some (saveError err), s, cs, w)
                | Inr encData \<Rightarrow>
                    (case (saveQ st, deref h (CQLStore.Options st)) of
                       (Some t, Some sto) \<Rightarrow>
                         (case Exec cs (Insert t (ID s) encData (MaxAge sto)) of
                            (Some err, cs') \<Rightarrow> Some (Some (saveError err), s, cs', w)
                          | (None, cs') \<Rightarrow>
                              (case EncodeMulti_ID sc (name s) (ID s) (Codecs st) of
                                 Inl err \<Rightarrow> Some (Some (saveError err), s, cs', w)
                               | Inr encID \<Rightarrow>
                                   Some (None, s, cs',
                                         SetCookie w (NewCookie (name s) encID so))))
                     | _ \<Rightarrow> None)))"

subsection \<open>A test double\<close>

text \<open>
  Concrete inputs in the manner of \<^verbatim>\<open>cqlstore_test.go\<close>: a codec that writes the
  session name before the payload and refuses identifiers longer than a UUID, an
  empty cluster that answers every statement, and a store on the table
  \<^verbatim>\<open>sessions\<close> whose options sit in cell 0 of the heap.
\<close>

definition test_codec :: "string securecookie" where
  "test_codec =
     \<lparr>CodecsFromPairs = (\<lambda>keys. keys),
      EncodeMulti_ID = (\<lambda>nm i cs.
        if cs = [] then Inl (foreignError ''securecookie: no codecs provided'')
        else if 36 < length i then Inl (foreignError ''securecookie: the value is too long'')
        else Inr (nm @ ''='' @ i)),
      EncodeMulti_Values = (\<lambda>nm vs cs.
        if cs = [] then Inl (foreignError ''securecookie: no codecs provided'')
        else Inr (nm @ '':'' @ (case vs ''foo'' of None \<Rightarrow> '''' | Some x \<Rightarrow> x))),
      DecodeMulti_ID = (\<lambda>nm v cs.
        if cs = [] then Inl (foreignError ''securecookie: no codecs provided'')
        else if take (length nm + 1) v = nm @ ''=''
        then Inr (drop (length nm + 1) v)
        else Inl (foreignError ''securecookie: the value is not valid'')),
      DecodeMulti_Values = (\<lambda>nm d dst cs.
        if cs = [] then (dst, Some (foreignError ''securecookie: no codecs provided''))
        else if take (length nm + 1) d = nm @ '':''
        then (dst(''foo'' \<mapsto> drop (length nm + 1) d), None)
        else (dst, Some (foreignError ''securecookie: the value is not valid'')))\<rparr>"

text \<open>
  A codec whose decode of the value mapping stores an entry and then fails, as a
  gob decoder does that meets a type it does not know after the first entries of
  a map.
\<close>

definition leaky_codec :: "string securecookie" where
  "leaky_codec =
     test_codec\<lparr>DecodeMulti_Values := (\<lambda>nm d dst cs.
        (dst(''foo'' \<mapsto> ''Foo''),
         Some (foreignError ''gob: name not registered for interface'')))\<rparr>"

definition test_cluster :: Cluster where
  "test_cluster = \<lparr>tables = {}, rows = (\<lambda>t. Map.empty), issued = [], fault = (\<lambda>q. None)\<rparr>"

definition test_options :: "int \<Rightarrow> Options" where
  "test_options n = \<lparr>Path = ''/'', Domain = '''', MaxAge = n, Secure = False, HttpOnly = False\<rparr>"

definition test_store :: "string CQLStore" where
  "test_store = \<lparr>Options = Some 0, Codecs = [''foo-bar-baz''], saveQ = Some ''sessions'',
                 deleteQ = Some ''sessions'', loadQ = Some ''sessions''\<rparr>"

definition test_session :: "string \<Rightarrow> ptr \<Rightarrow> Session" where
  "test_session i p = \<lparr>ID = i, Values = [''foo'' \<mapsto> ''Foo''], Options = p, IsNew = False,
                        name = ''test-sess''\<rparr>"

text \<open>
  The session \<^verbatim>\<open>CQLStore.New\<close> starts from for \<open>test_store\<close>, with a given
  identifier: no values, the store's options pointer, \<^verbatim>\<open>IsNew\<close> set.
\<close>

definition fresh_session :: "string \<Rightarrow> Session" where
  "fresh_session i = \<lparr>ID = i, Values = Map.empty, Options = Some 0, IsNew = True,
                       name = ''test-sess''\<rparr>"

text \<open>The same cluster once the session \<^verbatim>\<open>abc\<close> has been saved.\<close>

definition test_cluster_saved :: Cluster where
  "test_cluster_saved =
     test_cluster\<lparr>rows := (\<lambda>t. if t = ''sessions'' then [''abc'' \<mapsto> (''test-sess:Old'', 1800)]
                                else Map.empty)\<rparr>"

section \<open>Properties\<close>

lemmas test_defs =
  test_codec_def test_cluster_def test_options_def test_store_def test_session_def

lemmas run_defs = Save_def Exec_def deref_def SetCookie_def NewCookie_def Let_def

subsection \<open>What a loaded session carries\<close>

lemma CQLStore_New_name:
  "CQLStore_New sc h cs st r nm = Some ((s, e), cs') \<Longrightarrow> name s = nm"
  by (auto simp: CQLStore_New_def NewSession_def Let_def
           split: option.splits sum.splits prod.splits)

lemma CQLStore_New_Options:
  "CQLStore_New sc h cs st r nm = Some ((s, e), cs') \<Longrightarrow>
   Session.Options s = CQLStore.Options st"
  by (auto simp: CQLStore_New_def NewSession_def Let_def
           split: option.splits sum.splits prod.splits)

text \<open>On a name the registry has not seen, \<open>Get\<close> is \<open>CQLStore_New\<close> and registers the pair.\<close>

lemma Get_first_lookup:
  "reg nm = None \<Longrightarrow>
   Get sc h cs st reg r nm =
     map_option (\<lambda>(res, cs'). (res, cs', reg(nm \<mapsto> res))) (CQLStore_New sc h cs st r nm)"
  by (auto simp: Get_def Let_def dest: CQLStore_New_name split: option.splits prod.splits)

subsection \<open>Requests without the cookie\<close>

text \<open>
  Claim C8. On a request that carries no cookie of the requested name, \<open>CQLStore_New\<close>
  returns a session with \<open>IsNew\<close> set and an empty value mapping, and no error; the
  cluster is not touched. So does \<open>Get\<close> when the registry has no session under the
  name yet. The store's options are not \<^verbatim>\<open>nil\<close>, as in every store the
  constructor returns without error (the code dereferences them first).
\<close>

theorem New_without_cookie:
  assumes "deref h (CQLStore.Options st) \<noteq> None" and "Cookie r nm = None"
  shows "\<exists>s. CQLStore_New sc h cs st r nm = Some ((s, None), cs) \<and>
              IsNew s \<and> Values s = Map.empty \<and>
              (reg nm = None \<longrightarrow>
                 Get sc h cs st reg r nm = Some ((s, None), cs, reg(nm \<mapsto> (s, None))))"
proof -
  let ?s = "(NewSession nm)\<lparr>Session.Options := CQLStore.Options st, IsNew := True\<rparr>"
  have new: "CQLStore_New sc h cs st r nm = Some ((?s, None), cs)"
    using assms by (auto simp: CQLStore_New_def Let_def)
  have fresh: "IsNew ?s \<and> Values ?s = Map.empty" by (simp add: NewSession_def)
  have get: "reg nm = None \<longrightarrow>
      Get sc h cs st reg r nm = Some ((?s, None), cs, reg(nm \<mapsto> (?s, None)))"
    by (simp add: Get_first_lookup new)
  from new fresh get show ?thesis by (intro exI [of _ ?s] conjI) simp_all
qed

theorem New_without_cookie_witness:
  "deref [test_options 1800] (CQLStore.Options test_store) \<noteq> None \<and>
   Cookie [(''other'', ''x'')] ''test-sess'' = None \<and>
   (\<exists>s. CQLStore_New test_codec [test_options 1800] test_cluster test_store
           [(''other'', ''x'')] ''test-sess'' = Some ((s, None), test_cluster) \<and>
        IsNew s \<and> Values s = Map.empty \<and>
        (Map.empty ''test-sess'' = None \<longrightarrow>
           Get test_codec [test_options 1800] test_cluster test_store Map.empty
             [(''other'', ''x'')] ''test-sess''
           = Some ((s, None), test_cluster, [''test-sess'' \<mapsto> (s, None)])))"
proof -
  have h1: "deref [test_options 1800] (CQLStore.Options test_store) \<noteq> None"
    by (simp add: deref_def test_store_def)
  have h2: "Cookie [(''other'', ''x'')] ''test-sess'' = None"
    by (simp add: Cookie_def)
  from h1 h2 New_without_cookie [OF h1 h2, of test_codec test_cluster Map.empty]
  show ?thesis by simp
qed

subsection \<open>Saving: the identifier\<close>

text \<open>
  Claim C9. \<open>Save\<close> assigns an identifier only to a session that has none: whenever
  it returns, a session that came with a non-empty identifier leaves with the same
  one, and an identifier that differs from the one that came in is the freshly
  generated UUID on a session whose identifier was empty.
\<close>
theorem Save_keeps_ID:
  assumes "Save sc uuid h cs st r w s = Some (e, s', cs', w')"
  shows "(ID s \<noteq> '''' \<longrightarrow> ID s' = ID s) \<and> (ID s' \<noteq> ID s \<longrightarrow> ID s = '''' \<and> ID s' = uuid)"
proof -
  have "s' = s \<or> (ID s = '''' \<and> s' = s\<lparr>ID := uuid\<rparr>)"
    using assms
    by (simp add: Save_def Let_def split: option.splits sum.splits prod.splits if_splits)
  then show ?thesis by auto
qed


theorem Save_keeps_ID_witness:
  "Save test_codec ''u1'' [test_options 1800] test_cluster test_store [] []
     (test_session ''abc'' (Some 0))
   = Some (None, test_session ''abc'' (Some 0),
           snd (Exec test_cluster (Insert ''sessions'' ''abc'' ''test-sess:Foo'' 1800)),
           [NewCookie ''test-sess'' ''test-sess=abc'' (test_options 1800)]) \<and>
   ID (test_session ''abc'' (Some 0)) \<noteq> '''' \<and>
   Save test_codec ''u1'' [test_options 1800] test_cluster test_store [] []
     (test_session '''' (Some 0))
   = Some (None, test_session ''u1'' (Some 0),
           snd (Exec test_cluster (Insert ''sessions'' ''u1'' ''test-sess:Foo'' 1800)),
           [NewCookie ''test-sess'' ''test-sess=u1'' (test_options 1800)]) \<and>
   ID (test_session ''u1'' (Some 0)) \<noteq> ID (test_session '''' (Some 0)) \<and>
   ID (test_session '''' (Some 0)) = '''' \<and> ID (test_session ''u1'' (Some 0)) = ''u1''"
proof -
  have kept: "Save test_codec ''u1'' [test_options 1800] test_cluster test_store [] []
     (test_session ''abc'' (Some 0))
   = Some (None, test_session ''abc'' (Some 0),
           snd (Exec test_cluster (Insert ''sessions'' ''abc'' ''test-sess:Foo'' 1800)),
           [NewCookie ''test-sess'' ''test-sess=abc'' (test_options 1800)])"
    by (simp add: run_defs test_defs)
  have minted: "Save test_codec ''u1'' [test_options 1800] test_cluster test_store [] []
     (test_session '''' (Some 0))
   = Some (None, test_session ''u1'' (Some 0),
           snd (Exec test_cluster (Insert ''sessions'' ''u1'' ''test-sess:Foo'' 1800)),
           [NewCookie ''test-sess'' ''test-sess=u1'' (test_options 1800)])"
    by (simp add: run_defs test_defs)
  have ne: "ID (test_session ''u1'' (Some 0)) \<noteq> ID (test_session '''' (Some 0))"
    "ID (test_session ''abc'' (Some 0)) \<noteq> ''''"
    by (simp_all add: test_session_def)
  from Save_keeps_ID [OF minted] ne
  have "ID (test_session '''' (Some 0)) = '''' \<and> ID (test_session ''u1'' (Some 0)) = ''u1''"
    by blast
  with kept minted ne Save_keeps_ID [OF kept] show ?thesis by simp
qed

subsection \<open>Saving: the deletion path\<close>

text \<open>
  Claim C3 puts a max-age of zero on the deletion path. The test
  \<^verbatim>\<open>s.Options.MaxAge < 0\<close> is strict. With a max-age of exactly zero
  \<open>Save\<close> goes on to the upsert: on the session \<^verbatim>\<open>abc\<close>, already stored, it
  sends an \<^verbatim>\<open>INSERT\<close> and no \<^verbatim>\<open>DELETE\<close>, the row is still there afterwards
  (rewritten, with TTL 0), and the cookie carries the encoded identifier and the
  max-age 0, which is not negative.
\<close>

theorem Save_MaxAge_zero_counterexample:
  "MaxAge (test_options 0) \<le> 0 \<and>
   deref [test_options 0] (Session.Options (test_session ''abc'' (Some 0)))
     = Some (test_options 0) \<and>
   Save test_codec ''u1'' [test_options 0] test_cluster_saved test_store [] []
     (test_session ''abc'' (Some 0))
   = Some (None, test_session ''abc'' (Some 0),
           snd (Exec test_cluster_saved (Insert ''sessions'' ''abc'' ''test-sess:Foo'' 0)),
           [NewCookie ''test-sess'' ''test-sess=abc'' (test_options 0)]) \<and>
   issued (snd (Exec test_cluster_saved (Insert ''sessions'' ''abc'' ''test-sess:Foo'' 0)))
     = [Insert ''sessions'' ''abc'' ''test-sess:Foo'' 0] \<and>
   rows (snd (Exec test_cluster_saved (Insert ''sessions'' ''abc'' ''test-sess:Foo'' 0)))
     ''sessions'' ''abc'' = Some (''test-sess:Foo'', 0) \<and>
   Value (NewCookie ''test-sess'' ''test-sess=abc'' (test_options 0)) \<noteq> '''' \<and>
   \<not> MaxAge (NewCookie ''test-sess'' ''test-sess=abc'' (test_options 0)) < 0"
  by (simp add: run_defs test_defs test_cluster_saved_def)

text \<open>
  Claim C3, amended to the strict test. For every session whose options have a
  negative max-age, \<open>Save\<close> takes the deletion path: the one statement it sends is
  the \<^verbatim>\<open>DELETE\<close> for the session's identifier (no upsert), the session is
  returned as it came, and when the cluster carries the delete out, the row of
  that identifier is gone (whether or not it was there), every other row of the
  table is as before, the response gains one cookie with an empty value and the
  session's negative max-age, and the result is success.
\<close>

theorem Save_deletion_path:
  assumes "deref h (Session.Options s) = Some so" and "MaxAge so < 0"
    and "deleteQ st = Some t"
  shows "\<exists>e cs' w'.
           Save sc uuid h cs st r w s = Some (e, s, cs', w') \<and>
           issued cs' = issued cs @ [Delete t (ID s)] \<and>
           (fault cs (Delete t (ID s)) = None \<longrightarrow>
              e = None \<and> rows cs' t (ID s) = None \<and>
              (\<forall>i. i \<noteq> ID s \<longrightarrow> rows cs' t i = rows cs t i) \<and>
              w' = w @ [NewCookie (name s) '''' so] \<and>
              Value (NewCookie (name s) '''' so) = '''' \<and>
              MaxAge (NewCookie (name s) '''' so) < 0)"
proof (cases "fault cs (Delete t (ID s))")
  case None
  with assms show ?thesis
    by (simp add: Save_def Exec_def Let_def SetCookie_def NewCookie_def)
next
  case (Some m)
  with assms show ?thesis by (simp add: Save_def Exec_def Let_def)
qed


theorem Save_deletion_path_witness:
  "deref [test_options (- 1)] (Session.Options (test_session ''abc'' (Some 0)))
     = Some (test_options (- 1)) \<and>
   MaxAge (test_options (- 1)) < 0 \<and>
   deleteQ test_store = Some ''sessions'' \<and>
   fault test_cluster_saved (Delete ''sessions'' (ID (test_session ''abc'' (Some 0)))) = None \<and>
   rows test_cluster_saved ''sessions'' ''abc'' = Some (''test-sess:Old'', 1800) \<and>
   (\<exists>cs'. Save test_codec ''u1'' [test_options (- 1)] test_cluster_saved test_store [] []
            (test_session ''abc'' (Some 0))
          = Some (None, test_session ''abc'' (Some 0), cs',
                  [NewCookie ''test-sess'' '''' (test_options (- 1))]) \<and>
          issued cs' = [Delete ''sessions'' ''abc''] \<and>
          rows cs' ''sessions'' ''abc'' = None)"
proof -
  let ?s = "test_session ''abc'' (Some 0)"
  have h1: "deref [test_options (- 1)] (Session.Options ?s) = Some (test_options (- 1))"
    by (simp add: deref_def test_session_def)
  have h2: "MaxAge (test_options (- 1)) < 0" by (simp add: test_options_def)
  have h3: "deleteQ test_store = Some ''sessions''" by (simp add: test_store_def)
  have h4: "fault test_cluster_saved (Delete ''sessions'' (ID ?s)) = None"
    by (simp add: test_cluster_saved_def test_cluster_def)
  have h5: "rows test_cluster_saved ''sessions'' ''abc'' = Some (''test-sess:Old'', 1800)"
    by (simp add: test_cluster_saved_def test_cluster_def)
  have i: "ID ?s = ''abc''" and n: "name ?s = ''test-sess''"
    by (simp_all add: test_session_def)
  have i0: "issued test_cluster_saved = []"
    by (simp add: test_cluster_saved_def test_cluster_def)
  from Save_deletion_path [OF h1 h2 h3, of test_codec "''u1''" test_cluster_saved "[]" "[]"]
  have "\<exists>cs'. Save test_codec ''u1'' [test_options (- 1)] test_cluster_saved test_store [] [] ?s
            = Some (None, ?s, cs', [NewCookie ''test-sess'' '''' (test_options (- 1))]) \<and>
          issued cs' = [Delete ''sessions'' ''abc''] \<and>
          rows cs' ''sessions'' ''abc'' = None"
    by (auto simp add: h4 [unfolded i] i n i0)
  with h1 h2 h3 h4 h5 show ?thesis by simp
qed


text \<open>
  Claim C10. On the deletion path, when the cluster answers the \<^verbatim>\<open>DELETE\<close> with
  an error, \<open>Save\<close> returns that error wrapped in \<open>saveError\<close> and the response is
  exactly what it was: no cookie is added.
\<close>

theorem Save_delete_failure:
  assumes "deref h (Session.Options s) = Some so" and "MaxAge so < 0"
    and "deleteQ st = Some t" and "fault cs (Delete t (ID s)) = Some m"
  shows "Save sc uuid h cs st r w s =
           Some (Some (saveError (foreignError m)), s,
                 cs\<lparr>issued := issued cs @ [Delete t (ID s)]\<rparr>, w)"
  using assms by (simp add: Save_def Exec_def Let_def)

theorem Save_delete_failure_witness:
  "deref [test_options (- 1)] (Session.Options (test_session ''abc'' (Some 0)))
     = Some (test_options (- 1)) \<and>
   MaxAge (test_options (- 1)) < 0 \<and>
   deleteQ test_store = Some ''sessions'' \<and>
   fault (test_cluster\<lparr>fault := (\<lambda>q. Some ''unavailable'')\<rparr>)
     (Delete ''sessions'' (ID (test_session ''abc'' (Some 0)))) = Some ''unavailable'' \<and>
   Save test_codec ''u1'' [test_options (- 1)]
     (test_cluster\<lparr>fault := (\<lambda>q. Some ''unavailable'')\<rparr>) test_store []
     [NewCookie ''other'' ''x'' (test_options 60)] (test_session ''abc'' (Some 0))
   = Some (Some (saveError (foreignError ''unavailable'')), test_session ''abc'' (Some 0),
           test_cluster\<lparr>fault := (\<lambda>q. Some ''unavailable''),
                         issued := [Delete ''sessions'' ''abc'']\<rparr>,
           [NewCookie ''other'' ''x'' (test_options 60)])"
proof -
  let ?cs = "test_cluster\<lparr>fault := (\<lambda>q. Some ''unavailable'')\<rparr>"
  let ?s = "test_session ''abc'' (Some 0)"
  have h1: "deref [test_options (- 1)] (Session.Options ?s) = Some (test_options (- 1))"
    by (simp add: deref_def test_session_def)
  have h2: "MaxAge (test_options (- 1)) < 0" by (simp add: test_options_def)
  have h3: "deleteQ test_store = Some ''sessions''" by (simp add: test_store_def)
  have h4: "fault ?cs (Delete ''sessions'' (ID ?s)) = Some ''unavailable''" by simp
  from h1 h2 h3 h4
    Save_delete_failure [OF h1 h2 h3 h4, of test_codec "''u1''" "[]"
      "[NewCookie ''other'' ''x'' (test_options 60)]"]
  show ?thesis by (simp add: test_session_def test_cluster_def)
qed

subsection \<open>Saving: failures after the payload is encoded\<close>

text \<open>Every error \<open>Save\<close> returns is a \<open>saveError\<close>, and it comes with the response untouched.\<close>

lemma Save_error_leaves_response:
  assumes "Save sc uuid h cs st r w s = Some (Some e, s', cs', w')"
  shows "w' = w \<and> (\<exists>cause. e = saveError cause)"
  using assms
  by (auto simp: Save_def Let_def split: option.splits sum.splits prod.splits if_splits)


text \<open>
  Claim C4. Take a save on the upsert path (max-age not negative) whose payload
  encoded to \<open>encData\<close>; \<open>s1\<close> is the session with its identifier assigned and
  \<open>q\<close> the \<^verbatim>\<open>INSERT\<close> that is sent. If the cluster answers \<open>q\<close> with an error,
  \<open>Save\<close> returns it as a \<open>saveError\<close>, the rows are as before and no cookie is
  written. If the cluster carries \<open>q\<close> out and encoding the identifier fails,
  \<open>Save\<close> returns that failure as a \<open>saveError\<close>, again without a cookie, and the
  row stays stored under the identifier.
\<close>

theorem Save_failure_sets_no_cookie:
  assumes "deref h (Session.Options s) = Some so" and "\<not> MaxAge so < 0"
    and "s1 = (if ID s = '''' then s\<lparr>ID := uuid\<rparr> else s)"
    and "EncodeMulti_Values sc (name s1) (Values s1) (Codecs st) = Inr encData"
    and "saveQ st = Some t" and "deref h (CQLStore.Options st) = Some sto"
    and "q = Insert t (ID s1) encData (MaxAge sto)"
  shows "(\<forall>m. fault cs q = Some m \<longrightarrow>
            Save sc uuid h cs st r w s =
              Some (Some (saveError (foreignError m)), s1,
                    cs\<lparr>issued := issued cs @ [q]\<rparr>, w)) \<and>
         (\<forall>err. fault cs q = None \<and>
                 EncodeMulti_ID sc (name s1) (ID s1) (Codecs st) = Inl err \<longrightarrow>
            (\<exists>cs'. Save sc uuid h cs st r w s = Some (Some (saveError err), s1, cs', w) \<and>
                   rows cs' t (ID s1) = Some (encData, MaxAge sto)))"
proof (intro conjI allI impI)
  fix m assume "fault cs q = Some m"
  with assms show "Save sc uuid h cs st r w s =
      Some (Some (saveError (foreignError m)), s1, cs\<lparr>issued := issued cs @ [q]\<rparr>, w)"
    by (simp add: Save_def Exec_def Let_def)
next
  fix err
  assume "fault cs q = None \<and> EncodeMulti_ID sc (name s1) (ID s1) (Codecs st) = Inl err"
  with assms show "\<exists>cs'. Save sc uuid h cs st r w s = Some (Some (saveError err), s1, cs', w) \<and>
                   rows cs' t (ID s1) = Some (encData, MaxAge sto)"
    by (simp add: Save_def Exec_def Let_def)
qed

theorem Save_failure_sets_no_cookie_witness:
  "deref [test_options 1800] (Session.Options (test_session ''abc'' (Some 0)))
     = Some (test_options 1800) \<and>
   \<not> MaxAge (test_options 1800) < 0 \<and>
   EncodeMulti_Values test_codec ''test-sess'' [''foo'' \<mapsto> ''Foo''] (Codecs test_store)
     = Inr ''test-sess:Foo'' \<and>
   fault (test_cluster\<lparr>fault := (\<lambda>q. Some ''unavailable'')\<rparr>)
     (Insert ''sessions'' ''abc'' ''test-sess:Foo'' 1800) = Some ''unavailable'' \<and>
   Save test_codec ''u1'' [test_options 1800]
     (test_cluster\<lparr>fault := (\<lambda>q. Some ''unavailable'')\<rparr>) test_store [] []
     (test_session ''abc'' (Some 0))
   = Some (Some (saveError (foreignError ''unavailable'')), test_session ''abc'' (Some 0),
           test_cluster\<lparr>fault := (\<lambda>q. Some ''unavailable''),
                         issued := [Insert ''sessions'' ''abc'' ''test-sess:Foo'' 1800]\<rparr>, []) \<and>
   fault test_cluster
     (Insert ''sessions'' ''0123456789012345678901234567890123456789'' ''test-sess:Foo'' 1800)
     = None \<and>
   EncodeMulti_ID test_codec ''test-sess'' ''0123456789012345678901234567890123456789''
     (Codecs test_store) = Inl (foreignError ''securecookie: the value is too long'') \<and>
   (\<exists>cs'. Save test_codec ''u1'' [test_options 1800] test_cluster test_store [] []
            (test_session ''0123456789012345678901234567890123456789'' (Some 0))
          = Some (Some (saveError (foreignError ''securecookie: the value is too long'')),
                  test_session ''0123456789012345678901234567890123456789'' (Some 0), cs', []) \<and>
          rows cs' ''sessions'' ''0123456789012345678901234567890123456789''
            = Some (''test-sess:Foo'', 1800))"
proof -
  let ?h = "[test_options 1800]"
  let ?csA = "test_cluster\<lparr>fault := (\<lambda>q. Some ''unavailable'')\<rparr>"
  let ?long = "''0123456789012345678901234567890123456789''"
  have so: "deref ?h (Session.Options (test_session i (Some 0))) = Some (test_options 1800)" for i
    by (simp add: deref_def test_session_def)
  have age: "\<not> MaxAge (test_options 1800) < 0" by (simp add: test_options_def)
  have s1: "test_session i (Some 0) =
      (if ID (test_session i (Some 0)) = '''' then (test_session i (Some 0))\<lparr>ID := ''u1''\<rparr>
       else test_session i (Some 0))" if "i \<noteq> ''''" for i
    using that by (simp add: test_session_def)
  have enc: "EncodeMulti_Values test_codec (name (test_session i (Some 0)))
      (Values (test_session i (Some 0))) (Codecs test_store) = Inr ''test-sess:Foo''" for i
    by (simp add: test_defs)
  have sq: "saveQ test_store = Some ''sessions''" by (simp add: test_store_def)
  have sto: "deref ?h (CQLStore.Options test_store) = Some (test_options 1800)"
    by (simp add: deref_def test_store_def)
  have q: "Insert ''sessions'' i ''test-sess:Foo'' 1800 =
      Insert ''sessions'' (ID (test_session i (Some 0))) ''test-sess:Foo''
        (MaxAge (test_options 1800))" for i
    by (simp add: test_session_def test_options_def)
  have fA: "fault ?csA (Insert ''sessions'' ''abc'' ''test-sess:Foo'' 1800) = Some ''unavailable''"
    by simp
  have fB: "fault test_cluster (Insert ''sessions'' ?long ''test-sess:Foo'' 1800) = None"
    by (simp add: test_cluster_def)
  have eB: "EncodeMulti_ID test_codec (name (test_session ?long (Some 0)))
      (ID (test_session ?long (Some 0))) (Codecs test_store)
      = Inl (foreignError ''securecookie: the value is too long'')"
    by (simp add: test_defs)
  have A: "Save test_codec ''u1'' ?h ?csA test_store [] [] (test_session ''abc'' (Some 0))
      = Some (Some (saveError (foreignError ''unavailable'')), test_session ''abc'' (Some 0),
              ?csA\<lparr>issued := issued ?csA @ [Insert ''sessions'' ''abc'' ''test-sess:Foo'' 1800]\<rparr>,
              [])"
    using Save_failure_sets_no_cookie [OF so age s1 enc sq sto q, of "''abc''" ?csA "[]" "[]"] fA
    by simp
  have B: "\<exists>cs'. Save test_codec ''u1'' ?h test_cluster test_store [] []
            (test_session ?long (Some 0))
          = Some (Some (saveError (foreignError ''securecookie: the value is too long'')),
                  test_session ?long (Some 0), cs', []) \<and>
          rows cs' ''sessions'' (ID (test_session ?long (Some 0)))
            = Some (''test-sess:Foo'', MaxAge (test_options 1800))"
    using Save_failure_sets_no_cookie [OF so age s1 enc sq sto q, of ?long test_cluster "[]" "[]"]
      fB eB by simp
  have e0: "EncodeMulti_Values test_codec ''test-sess'' [''foo'' \<mapsto> ''Foo''] (Codecs test_store)
     = Inr ''test-sess:Foo''"
    by (simp add: test_defs)
  have e1: "EncodeMulti_ID test_codec ''test-sess'' ?long (Codecs test_store)
      = Inl (foreignError ''securecookie: the value is too long'')"
    by (simp add: test_defs)
  from B have B': "\<exists>cs'. Save test_codec ''u1'' ?h test_cluster test_store [] []
            (test_session ?long (Some 0))
          = Some (Some (saveError (foreignError ''securecookie: the value is too long'')),
                  test_session ?long (Some 0), cs', []) \<and>
          rows cs' ''sessions'' ?long = Some (''test-sess:Foo'', 1800)"
    by (simp add: test_session_def test_options_def)
  from A have A': "Save test_codec ''u1'' ?h ?csA test_store [] [] (test_session ''abc'' (Some 0))
      = Some (Some (saveError (foreignError ''unavailable'')), test_session ''abc'' (Some 0),
              test_cluster\<lparr>fault := (\<lambda>q. Some ''unavailable''),
                         issued := [Insert ''sessions'' ''abc'' ''test-sess:Foo'' 1800]\<rparr>, [])"
    by (simp add: test_cluster_def)
  show ?thesis
    using so [of "''abc''"] age e0 fA A' fB e1 B' by (intro conjI) assumption+
qed

subsection \<open>Saving: the TTL of the row\<close>

text \<open>
  The \<^verbatim>\<open>INSERT\<close> is bound with \<^verbatim>\<open>st.Options.MaxAge\<close>: whatever row a save
  writes, its TTL is the max-age of the store's options.
\<close>

lemma Save_upsert_TTL:
  assumes "Save sc uuid h cs st r w s = Some (e, s', cs', w')"
    and "Insert t i d ttl \<in> set (issued cs')" and "Insert t i d ttl \<notin> set (issued cs)"
  shows "map_option MaxAge (deref h (CQLStore.Options st)) = Some ttl"
  using assms
  by (auto simp: Save_def Exec_def Let_def
           split: option.splits sum.splits prod.splits if_splits)


text \<open>
  Claim C1 says the row is written with the session's own max-age. The code reads
  the store's. Here the store's options (cell 0) have max-age 1800 and the session
  has options of its own (cell 1, as after
  \<^verbatim>\<open>sess.Options = &sessions.Options{MaxAge: 900}\<close>): the save succeeds, the
  row's TTL is 1800, and the cookie of the same save carries 900.
\<close>

theorem Save_TTL_ignores_session_MaxAge:
  "deref [test_options 1800, test_options 900] (CQLStore.Options test_store)
     = Some (test_options 1800) \<and>
   deref [test_options 1800, test_options 900] (Session.Options (test_session '''' (Some 1)))
     = Some (test_options 900) \<and>
   Save test_codec ''u1'' [test_options 1800, test_options 900] test_cluster test_store [] []
     (test_session '''' (Some 1))
   = Some (None, test_session ''u1'' (Some 1),
           snd (Exec test_cluster (Insert ''sessions'' ''u1'' ''test-sess:Foo'' 1800)),
           [NewCookie ''test-sess'' ''test-sess=u1'' (test_options 900)]) \<and>
   rows (snd (Exec test_cluster (Insert ''sessions'' ''u1'' ''test-sess:Foo'' 1800)))
     ''sessions'' ''u1'' = Some (''test-sess:Foo'', 1800) \<and>
   MaxAge (NewCookie ''test-sess'' ''test-sess=u1'' (test_options 900)) = 900"
  by (simp add: run_defs test_defs)

subsection \<open>The constructor and the table name\<close>

text \<open>A store the constructor returns without error has its options and its three queries.\<close>

lemma New_store_wellformed:
  assumes "New sc h cs table keypairs = ((st, None), h', cs')"
  shows "deref h' (CQLStore.Options st) \<noteq> None \<and> saveQ st = Some table \<and>
         deleteQ st = Some table \<and> loadQ st = Some table"
  using assms
  by (auto simp: New_def alloc_def deref_def Let_def split: if_splits prod.splits option.splits)


text \<open>
  Claim C6 calls the error of a rejected table name a CreateError. The constructor
  wraps only the failure of \<^verbatim>\<open>CREATE TABLE\<close> in \<^verbatim>\<open>createError\<close>; for a table
  name the pattern rejects it returns a plain \<^verbatim>\<open>errors.New\<close> value. Here a name
  with a semicolon and spaces is rejected, nothing is sent to the cluster, and the
  error is not a \<^verbatim>\<open>createError\<close>.
\<close>

theorem New_bad_table_counterexample:
  "\<not> MatchString ''sessions; DROP TABLE students'' \<and>
   New test_codec [] test_cluster ''sessions; DROP TABLE students'' [''bobby-tables'']
     = ((zero_CQLStore, Some (errorString ''Invalid table name sessions; DROP TABLE students'')),
        [], test_cluster) \<and>
   \<not> is_createError (errorString ''Invalid table name sessions; DROP TABLE students'')"
  by (simp add: New_def MatchString_def word_char_def)


text \<open>
  Claim C6, amended in the kind of error only. For every table name that is empty
  or has a character other than a letter, a digit or the underscore, the
  constructor fails with the plain error \<^verbatim>\<open>Invalid table name\<close> followed by the
  name, returns the zero store, and leaves the cluster and the heap exactly as
  they were: no statement is sent, no table is created.
\<close>

theorem New_rejects_table:
  assumes "table = [] \<or> (\<exists>c \<in> set table. \<not> word_char c)"
  shows "New sc h cs table keypairs =
           ((zero_CQLStore, Some (errorString (''Invalid table name '' @ table))), h, cs)"
proof -
  from assms have "\<not> MatchString table"
    by (auto simp: MatchString_def list_all_iff)
  then show ?thesis by (simp add: New_def)
qed

theorem New_rejects_table_witness:
  "(''a;b'' = [] \<or> (\<exists>c \<in> set ''a;b''. \<not> word_char c)) \<and>
   New test_codec [test_options 60] test_cluster_saved ''a;b'' [''bobby-tables'']
     = ((zero_CQLStore, Some (errorString ''Invalid table name a;b'')),
        [test_options 60], test_cluster_saved)"
proof -
  have h: "''a;b'' = [] \<or> (\<exists>c \<in> set ''a;b''. \<not> word_char c)"
    by (simp add: word_char_def)
  from h New_rejects_table [OF h, of test_codec "[test_options 60]" test_cluster_saved
      "[''bobby-tables'']"]
  show ?thesis by simp
qed

subsection \<open>Loading: failures\<close>

text \<open>
  Claim C5 gives every session returned with a load error an empty value mapping.
  The payload is decoded through \<^verbatim>\<open>&s.Values\<close> and the session is returned
  as the decoder left it. Here the cookie decodes, the row is there, and the
  decoder stores one entry before it fails: the session comes back with the load
  error, \<open>IsNew\<close> set, and that entry in its values.
\<close>

theorem New_payload_failure_counterexample:
  "Cookie [(''test-sess'', ''test-sess=abc'')] ''test-sess'' = Some ''test-sess=abc'' \<and>
   DecodeMulti_ID leaky_codec ''test-sess'' ''test-sess=abc'' (Codecs test_store) = Inr ''abc'' \<and>
   fst (Scan test_cluster_saved ''sessions'' ''abc'') = Inr ''test-sess:Old'' \<and>
   snd (DecodeMulti_Values leaky_codec ''test-sess'' ''test-sess:Old''
          (Values (fresh_session ''abc'')) (Codecs test_store))
     = Some (foreignError ''gob: name not registered for interface'') \<and>
   CQLStore_New leaky_codec [test_options 1800] test_cluster_saved test_store
     [(''test-sess'', ''test-sess=abc'')] ''test-sess''
   = Some (((test_session ''abc'' (Some 0))\<lparr>IsNew := True\<rparr>,
            Some (loadError (foreignError ''gob: name not registered for interface''))),
           snd (Scan test_cluster_saved ''sessions'' ''abc'')) \<and>
   Values ((test_session ''abc'' (Some 0))\<lparr>IsNew := True\<rparr>) ''foo'' = Some ''Foo''"
  by (simp add: CQLStore_New_def NewSession_def Cookie_def Scan_def deref_def Let_def
                test_defs fresh_session_def leaky_codec_def test_cluster_saved_def)

text \<open>
  Claim C5, amended in the value mapping after a failed payload decode. For every
  request and name, \<open>CQLStore_New\<close> on a store whose options and load query are
  not \<^verbatim>\<open>nil\<close> returns a session (it does not panic), and so does \<open>Get\<close> on a name
  the registry has not seen, with the same session and error. The session has the
  requested name and the store's options, which are not \<^verbatim>\<open>nil\<close>. Whenever an
  error comes back it is a \<open>loadError\<close> and the session has \<open>IsNew\<close> set. If
  decoding the cookie or fetching the record fails, the error wraps that failure
  and the value mapping is empty. If decoding the fetched payload fails, the
  error wraps that failure and the value mapping is what the decoder left in the
  empty map it was given.
\<close>

theorem New_always_returns_session:
  assumes "deref h (CQLStore.Options st) \<noteq> None" and "loadQ st = Some t"
  shows "\<exists>s e cs'.
           CQLStore_New sc h cs st r nm = Some ((s, e), cs') \<and>
           (reg nm = None \<longrightarrow>
              Get sc h cs st reg r nm = Some ((s, e), cs', reg(nm \<mapsto> (s, e)))) \<and>
           Session.Options s = CQLStore.Options st \<and>
           deref h (Session.Options s) \<noteq> None \<and>
           name s = nm \<and>
           (e \<noteq> None \<longrightarrow> IsNew s \<and> (\<exists>cause. e = Some (loadError cause))) \<and>
           (\<forall>v err. Cookie r nm = Some v \<and>
                     DecodeMulti_ID sc nm v (Codecs st) = Inl err \<longrightarrow>
                     e = Some (loadError err) \<and> Values s = Map.empty) \<and>
           (\<forall>v i err. Cookie r nm = Some v \<and>
                     DecodeMulti_ID sc nm v (Codecs st) = Inr i \<and>
                     fst (Scan cs t i) = Inl err \<longrightarrow>
                     e = Some (loadError err) \<and> Values s = Map.empty) \<and>
           (\<forall>v i d vs err. Cookie r nm = Some v \<and>
                     DecodeMulti_ID sc nm v (Codecs st) = Inr i \<and>
                     fst (Scan cs t i) = Inr d \<and>
                     DecodeMulti_Values sc nm d Map.empty (Codecs st) = (vs, Some err) \<longrightarrow>
                     e = Some (loadError err) \<and> Values s = vs)"
proof -
  from assms have "CQLStore_New sc h cs st r nm \<noteq> None"
    by (simp add: CQLStore_New_def Let_def split: option.splits sum.splits prod.splits)
  then obtain s e cs' where new: "CQLStore_New sc h cs st r nm = Some ((s, e), cs')"
    by (cases "CQLStore_New sc h cs st r nm") auto
  have get: "reg nm = None \<longrightarrow>
      Get sc h cs st reg r nm = Some ((s, e), cs', reg(nm \<mapsto> (s, e)))"
    by (simp add: Get_first_lookup new)
  have opts: "Session.Options s = CQLStore.Options st"
    using new by (rule CQLStore_New_Options)
  have live: "deref h (Session.Options s) \<noteq> None"
    using assms(1) opts by simp
  have nm: "name s = nm"
    using new by (rule CQLStore_New_name)
  have fresh: "e \<noteq> None \<longrightarrow> IsNew s \<and> (\<exists>cause. e = Some (loadError cause))"
    using new
    by (auto simp: CQLStore_New_def NewSession_def Let_def
             split: option.splits sum.splits prod.splits)
  have cookie: "\<forall>v err. Cookie r nm = Some v \<and>
      DecodeMulti_ID sc nm v (Codecs st) = Inl err \<longrightarrow>
      e = Some (loadError err) \<and> Values s = Map.empty"
    using new by (auto simp: CQLStore_New_def NewSession_def Let_def split: option.splits)
  have fetch: "\<forall>v i err. Cookie r nm = Some v \<and>
      DecodeMulti_ID sc nm v (Codecs st) = Inr i \<and> fst (Scan cs t i) = Inl err \<longrightarrow>
      e = Some (loadError err) \<and> Values s = Map.empty"
    using new assms(2)
    by (auto simp: CQLStore_New_def NewSession_def Let_def split: option.splits prod.splits)
  have payload: "\<forall>v i d vs err. Cookie r nm = Some v \<and>
      DecodeMulti_ID sc nm v (Codecs st) = Inr i \<and> fst (Scan cs t i) = Inr d \<and>
      DecodeMulti_Values sc nm d Map.empty (Codecs st) = (vs, Some err) \<longrightarrow>
      e = Some (loadError err) \<and> Values s = vs"
    using new assms(2)
    by (auto simp: CQLStore_New_def NewSession_def Let_def split: option.splits prod.splits)
  from new get opts live nm fresh cookie fetch payload show ?thesis
    by (intro exI [of _ s] exI [of _ e] exI [of _ cs'] conjI) assumption+
qed

theorem New_always_returns_session_witness:
  "deref [test_options 1800] (CQLStore.Options test_store) \<noteq> None \<and>
   loadQ test_store = Some ''sessions'' \<and>
   Cookie [(''test-sess'', ''bogus'')] ''test-sess'' = Some ''bogus'' \<and>
   DecodeMulti_ID test_codec ''test-sess'' ''bogus'' (Codecs test_store)
     = Inl (foreignError ''securecookie: the value is not valid'') \<and>
   (\<exists>s cs'.
      CQLStore_New test_codec [test_options 1800] test_cluster test_store
        [(''test-sess'', ''bogus'')] ''test-sess''
      = Some ((s, Some (loadError (foreignError ''securecookie: the value is not valid''))),
              cs') \<and>
      Get test_codec [test_options 1800] test_cluster test_store Map.empty
        [(''test-sess'', ''bogus'')] ''test-sess''
      = Some ((s, Some (loadError (foreignError ''securecookie: the value is not valid''))),
              cs',
              [''test-sess'' \<mapsto>
                 (s, Some (loadError (foreignError ''securecookie: the value is not valid'')))]) \<and>
      Session.Options s = Some 0 \<and>
      deref [test_options 1800] (Session.Options s) \<noteq> None \<and>
      IsNew s \<and> Values s = Map.empty) \<and>
   Cookie [(''test-sess'', ''test-sess=abc'')] ''test-sess'' = Some ''test-sess=abc'' \<and>
   DecodeMulti_ID test_codec ''test-sess'' ''test-sess=abc'' (Codecs test_store) = Inr ''abc'' \<and>
   fst (Scan test_cluster ''sessions'' ''abc'') = Inl (foreignError ''not found'') \<and>
   (\<exists>s cs'.
      CQLStore_New test_codec [test_options 1800] test_cluster test_store
        [(''test-sess'', ''test-sess=abc'')] ''test-sess''
      = Some ((s, Some (loadError (foreignError ''not found''))), cs') \<and>
      IsNew s \<and> Values s = Map.empty) \<and>
   DecodeMulti_ID leaky_codec ''test-sess'' ''test-sess=abc'' (Codecs test_store) = Inr ''abc'' \<and>
   fst (Scan test_cluster_saved ''sessions'' ''abc'') = Inr ''test-sess:Old'' \<and>
   DecodeMulti_Values leaky_codec ''test-sess'' ''test-sess:Old'' Map.empty (Codecs test_store)
     = ([''foo'' \<mapsto> ''Foo''],
        Some (foreignError ''gob: name not registered for interface'')) \<and>
   (\<exists>s cs'.
      CQLStore_New leaky_codec [test_options 1800] test_cluster_saved test_store
        [(''test-sess'', ''test-sess=abc'')] ''test-sess''
      = Some ((s, Some (loadError (foreignError ''gob: name not registered for interface''))),
              cs') \<and>
      IsNew s \<and> Values s = [''foo'' \<mapsto> ''Foo''])"
proof -
  let ?h = "[test_options 1800]"
  let ?bogus = "[(''test-sess'', ''bogus'')]"
  let ?abc = "[(''test-sess'', ''test-sess=abc'')]"
  let ?invalid = "foreignError ''securecookie: the value is not valid''"
  let ?missing = "foreignError ''not found''"
  let ?gob = "foreignError ''gob: name not registered for interface''"
  have h1: "deref ?h (CQLStore.Options test_store) \<noteq> None"
    by (simp add: deref_def test_store_def)
  have h2: "loadQ test_store = Some ''sessions''" by (simp add: test_store_def)
  have o: "CQLStore.Options test_store = Some 0" by (simp add: test_store_def)
  have c1: "Cookie ?bogus ''test-sess'' = Some ''bogus''"
    and c2: "Cookie ?abc ''test-sess'' = Some ''test-sess=abc''"
    by (simp_all add: Cookie_def)
  have d1: "DecodeMulti_ID test_codec ''test-sess'' ''bogus'' (Codecs test_store) = Inl ?invalid"
    and d2: "DecodeMulti_ID test_codec ''test-sess'' ''test-sess=abc'' (Codecs test_store)
               = Inr ''abc''"
    and d3: "DecodeMulti_ID leaky_codec ''test-sess'' ''test-sess=abc'' (Codecs test_store)
               = Inr ''abc''"
    by (simp_all add: test_defs leaky_codec_def)
  have f2: "fst (Scan test_cluster ''sessions'' ''abc'') = Inl ?missing"
    and f3: "fst (Scan test_cluster_saved ''sessions'' ''abc'') = Inr ''test-sess:Old''"
    by (simp_all add: Scan_def Let_def test_cluster_def test_cluster_saved_def)
  have p3: "DecodeMulti_Values leaky_codec ''test-sess'' ''test-sess:Old'' Map.empty
              (Codecs test_store) = ([''foo'' \<mapsto> ''Foo''], Some ?gob)"
    by (simp add: test_defs leaky_codec_def)
  have A: "\<exists>s cs'.
      CQLStore_New test_codec ?h test_cluster test_store ?bogus ''test-sess''
        = Some ((s, Some (loadError ?invalid)), cs') \<and>
      Get test_codec ?h test_cluster test_store Map.empty ?bogus ''test-sess''
        = Some ((s, Some (loadError ?invalid)), cs',
                [''test-sess'' \<mapsto> (s, Some (loadError ?invalid))]) \<and>
      Session.Options s = Some 0 \<and> deref ?h (Session.Options s) \<noteq> None \<and>
      IsNew s \<and> Values s = Map.empty"
  proof -
    from New_always_returns_session [OF h1 h2, of test_codec test_cluster ?bogus
           "''test-sess''" Map.empty]
    obtain s e cs' where
      new: "CQLStore_New test_codec ?h test_cluster test_store ?bogus ''test-sess''
              = Some ((s, e), cs')"
      and get: "Get test_codec ?h test_cluster test_store Map.empty ?bogus ''test-sess''
              = Some ((s, e), cs', [''test-sess'' \<mapsto> (s, e)])"
      and opts: "Session.Options s = CQLStore.Options test_store"
      and live: "deref ?h (Session.Options s) \<noteq> None"
      and fresh: "e \<noteq> None \<longrightarrow> IsNew s \<and> (\<exists>cause. e = Some (loadError cause))"
      and cookie: "\<forall>v err. Cookie ?bogus ''test-sess'' = Some v \<and>
              DecodeMulti_ID test_codec ''test-sess'' v (Codecs test_store) = Inl err \<longrightarrow>
              e = Some (loadError err) \<and> Values s = Map.empty"
      by (elim exE conjE) simp
    from cookie c1 d1 have e: "e = Some (loadError ?invalid)" and v: "Values s = Map.empty"
      by blast+
    from fresh e have "IsNew s" by simp
    with new get opts live e v o show ?thesis
      by (intro exI [of _ s] exI [of _ cs'] conjI) simp_all
  qed
  have B: "\<exists>s cs'.
      CQLStore_New test_codec ?h test_cluster test_store ?abc ''test-sess''
        = Some ((s, Some (loadError ?missing)), cs') \<and>
      IsNew s \<and> Values s = Map.empty"
  proof -
    from New_always_returns_session [OF h1 h2, of test_codec test_cluster ?abc
           "''test-sess''" Map.empty]
    obtain s e cs' where
      new: "CQLStore_New test_codec ?h test_cluster test_store ?abc ''test-sess''
              = Some ((s, e), cs')"
      and fresh: "e \<noteq> None \<longrightarrow> IsNew s \<and> (\<exists>cause. e = Some (loadError cause))"
      and fetch: "\<forall>v i err. Cookie ?abc ''test-sess'' = Some v \<and>
              DecodeMulti_ID test_codec ''test-sess'' v (Codecs test_store) = Inr i \<and>
              fst (Scan test_cluster ''sessions'' i) = Inl err \<longrightarrow>
              e = Some (loadError err) \<and> Values s = Map.empty"
      by (elim exE conjE) simp
    from fetch c2 d2 f2 have e: "e = Some (loadError ?missing)" and v: "Values s = Map.empty"
      by blast+
    from fresh e have "IsNew s" by simp
    with new e v show ?thesis
      by (intro exI [of _ s] exI [of _ cs'] conjI) simp_all
  qed
  have C: "\<exists>s cs'.
      CQLStore_New leaky_codec ?h test_cluster_saved test_store ?abc ''test-sess''
        = Some ((s, Some (loadError ?gob)), cs') \<and>
      IsNew s \<and> Values s = [''foo'' \<mapsto> ''Foo'']"
  proof -
    from New_always_returns_session [OF h1 h2, of leaky_codec test_cluster_saved ?abc
           "''test-sess''" Map.empty]
    obtain s e cs' where
      new: "CQLStore_New leaky_codec ?h test_cluster_saved test_store ?abc ''test-sess''
              = Some ((s, e), cs')"
      and fresh: "e \<noteq> None \<longrightarrow> IsNew s \<and> (\<exists>cause. e = Some (loadError cause))"
      and payload: "\<forall>v i d vs err. Cookie ?abc ''test-sess'' = Some v \<and>
              DecodeMulti_ID leaky_codec ''test-sess'' v (Codecs test_store) = Inr i \<and>
              fst (Scan test_cluster_saved ''sessions'' i) = Inr d \<and>
              DecodeMulti_Values leaky_codec ''test-sess'' d Map.empty (Codecs test_store)
                = (vs, Some err) \<longrightarrow>
              e = Some (loadError err) \<and> Values s = vs"
      by (elim exE conjE) simp
    from payload c2 d3 f3 p3
    have e: "e = Some (loadError ?gob)" and v: "Values s = [''foo'' \<mapsto> ''Foo'']"
      by blast+
    from fresh e have "IsNew s" by simp
    with new e v show ?thesis
      by (intro exI [of _ s] exI [of _ cs'] conjI) simp_all
  qed
  from h1 h2 c1 d1 A c2 d2 f2 B d3 f3 p3 C show ?thesis
    by (intro conjI) assumption+
qed

text \<open>
  Claim C7 says a session returned with a load error has an empty identifier. The
  cookie is decoded straight into \<^verbatim>\<open>s.ID\<close>, before the record is fetched:
  here the cookie decodes to \<^verbatim>\<open>abc\<close>, the cluster has no such row, and the
  session comes back with the load error and the identifier \<^verbatim>\<open>abc\<close>.
\<close>

theorem New_LoadError_keeps_decoded_ID_counterexample:
  "Cookie [(''test-sess'', ''test-sess=abc'')] ''test-sess'' = Some ''test-sess=abc'' \<and>
   DecodeMulti_ID test_codec ''test-sess'' ''test-sess=abc'' (Codecs test_store) = Inr ''abc'' \<and>
   fst (Scan test_cluster ''sessions'' ''abc'') = Inl (foreignError ''not found'') \<and>
   CQLStore_New test_codec [test_options 1800] test_cluster test_store
     [(''test-sess'', ''test-sess=abc'')] ''test-sess''
   = Some ((fresh_session ''abc'', Some (loadError (foreignError ''not found''))),
           snd (Scan test_cluster ''sessions'' ''abc'')) \<and>
   ID (fresh_session ''abc'') \<noteq> ''''"
  by (simp add: CQLStore_New_def NewSession_def Cookie_def Scan_def deref_def Let_def
                test_defs fresh_session_def)


text \<open>
  Claim C7, amended. Every call of \<open>CQLStore_New\<close> that returns an error found the
  cookie. If decoding the cookie failed, the error wraps that failure and the
  session's identifier is empty; if the cookie decoded (so the record fetch or
  the payload decode failed), the session's identifier is the decoded one.
\<close>

theorem New_LoadError_ID:
  assumes "CQLStore_New sc h cs st r nm = Some ((s, Some e), cs')"
  shows "\<exists>v. Cookie r nm = Some v \<and>
             (case DecodeMulti_ID sc nm v (Codecs st) of
                Inl err \<Rightarrow> e = loadError err \<and> ID s = ''''
              | Inr i \<Rightarrow> ID s = i)"
  using assms
  by (auto simp: CQLStore_New_def NewSession_def Let_def
           split: option.splits sum.splits prod.splits)

theorem New_LoadError_ID_witness:
  "CQLStore_New test_codec [test_options 1800] test_cluster test_store
     [(''test-sess'', ''bogus'')] ''test-sess''
   = Some ((fresh_session '''',
            Some (loadError (foreignError ''securecookie: the value is not valid''))),
           test_cluster) \<and>
   CQLStore_New test_codec [test_options 1800] test_cluster test_store
     [(''test-sess'', ''test-sess=abc'')] ''test-sess''
   = Some ((fresh_session ''abc'', Some (loadError (foreignError ''not found''))),
           snd (Scan test_cluster ''sessions'' ''abc'')) \<and>
   (\<exists>v. Cookie [(''test-sess'', ''bogus'')] ''test-sess'' = Some v \<and>
        DecodeMulti_ID test_codec ''test-sess'' v (Codecs test_store)
          = Inl (foreignError ''securecookie: the value is not valid'') \<and>
        ID (fresh_session '''') = '''') \<and>
   (\<exists>v. Cookie [(''test-sess'', ''test-sess=abc'')] ''test-sess'' = Some v \<and>
        DecodeMulti_ID test_codec ''test-sess'' v (Codecs test_store) = Inr ''abc'' \<and>
        ID (fresh_session ''abc'') = ''abc'')"
proof -
  have bogus: "CQLStore_New test_codec [test_options 1800] test_cluster test_store
     [(''test-sess'', ''bogus'')] ''test-sess''
   = Some ((fresh_session '''',
            Some (loadError (foreignError ''securecookie: the value is not valid''))),
           test_cluster)"
    by (simp add: CQLStore_New_def NewSession_def Cookie_def deref_def Let_def test_defs
                  fresh_session_def)
  have missing: "CQLStore_New test_codec [test_options 1800] test_cluster test_store
     [(''test-sess'', ''test-sess=abc'')] ''test-sess''
   = Some ((fresh_session ''abc'', Some (loadError (foreignError ''not found''))),
           snd (Scan test_cluster ''sessions'' ''abc''))"
    by (simp add: CQLStore_New_def NewSession_def Cookie_def Scan_def deref_def Let_def
                  test_defs fresh_session_def)
  have d1: "DecodeMulti_ID test_codec ''test-sess'' ''bogus'' (Codecs test_store)
          = Inl (foreignError ''securecookie: the value is not valid'')"
    and d2: "DecodeMulti_ID test_codec ''test-sess'' ''test-sess=abc'' (Codecs test_store)
          = Inr ''abc''"
    by (simp_all add: test_defs)
  from New_LoadError_ID [OF bogus]
  have w1: "\<exists>v. Cookie [(''test-sess'', ''bogus'')] ''test-sess'' = Some v \<and>
        DecodeMulti_ID test_codec ''test-sess'' v (Codecs test_store)
          = Inl (foreignError ''securecookie: the value is not valid'') \<and>
        ID (fresh_session '''') = ''''"
    by (auto simp: Cookie_def d1)
  from New_LoadError_ID [OF missing]
  have w2: "\<exists>v. Cookie [(''test-sess'', ''test-sess=abc'')] ''test-sess'' = Some v \<and>
        DecodeMulti_ID test_codec ''test-sess'' v (Codecs test_store) = Inr ''abc'' \<and>
        ID (fresh_session ''abc'') = ''abc''"
    by (auto simp: Cookie_def d2)
  from bogus missing w1 w2 show ?thesis by (intro conjI) assumption+
qed

subsection \<open>The options of a session and of the store\<close>

text \<open>
  A session \<open>CQLStore_New\<close> returns points at the store's own options, so an
  assignment to a field through the session is an assignment to the store's.
\<close>

lemma set_MaxAge_through_session:
  assumes "CQLStore_New sc h cs st r nm = Some ((s, e), cs')"
    and "set_MaxAge h (Session.Options s) n = Some h'"
  shows "map_option MaxAge (deref h' (CQLStore.Options st)) = Some n"
proof -
  from assms(1) have "Session.Options s = CQLStore.Options st"
    by (rule CQLStore_New_Options)
  with assms(2) show ?thesis
    by (auto simp: set_MaxAge_def deref_def split: option.splits if_splits)
qed


text \<open>
  Claim C2 says the options of a new session are a copy of the store's. They are
  the same cell. The run below is that of the test
  \<^verbatim>\<open>TestSettingOptionsOnOneDoesNotSetForAll\<close>: the constructor builds the store,
  the caller sets \<^verbatim>\<open>store.Options.MaxAge = 1800\<close>, gets a session and sets
  \<^verbatim>\<open>sess.Options.MaxAge = 900\<close>. After that the store's max-age reads 900, where
  the test expects 1800, and a session created afterwards reads 900 as well.
\<close>

theorem session_Options_share_store_Options:
  "New test_codec [] test_cluster ''sessions'' [''foo-bar-baz'']
     = ((test_store, None), [test_options (86400 * 30)],
        snd (Exec test_cluster (CreateTable ''sessions''))) \<and>
   set_MaxAge [test_options (86400 * 30)] (CQLStore.Options test_store) 1800
     = Some [test_options 1800] \<and>
   CQLStore_New test_codec [test_options 1800]
     (snd (Exec test_cluster (CreateTable ''sessions''))) test_store [] ''test-sess''
     = Some ((fresh_session '''', None), snd (Exec test_cluster (CreateTable ''sessions''))) \<and>
   set_MaxAge [test_options 1800] (Session.Options (fresh_session '''')) 900
     = Some [test_options 900] \<and>
   map_option MaxAge (deref [test_options 900] (CQLStore.Options test_store)) = Some 900 \<and>
   CQLStore_New test_codec [test_options 900]
     (snd (Exec test_cluster (CreateTable ''sessions''))) test_store [] ''test-sess''
     = Some ((fresh_session '''', None), snd (Exec test_cluster (CreateTable ''sessions''))) \<and>
   map_option MaxAge (deref [test_options 900] (Session.Options (fresh_session ''''))) = Some 900"
  by (simp add: New_def MatchString_def word_char_def Exec_def alloc_def set_MaxAge_def
                CQLStore_New_def NewSession_def Cookie_def deref_def Let_def test_defs
                fresh_session_def)

end
